theory Spec2Isabelle
  imports Complex_Main "HOL-Library.Sublist" "HOL-Library.Multiset"
begin

section \<open>Text\<close>

text \<open>
  Python \<open>str\<close> values are modelled as Isabelle strings, one \<open>char\<close> per code point, for
  the code points up to \<open>0xFF\<close>. On that range \<open>is_digit\<close> is the class \<open>\d\<close> and
  \<open>is_space\<close> is the whitespace of \<open>str.strip\<close> and \<open>int\<close>; the classes that the source
  spells out (\<open>[a-zA-Z0-9]\<close>) are ASCII in the source as well. \<open>lower\<close> and \<open>upper\<close>
  change the ASCII letters, which are the letters of the codes the extractor derives
  (\<open>[a-zA-Z0-9-]\<close>) and of the indicator codes it builds.
\<close>

definition is_digit :: "char \<Rightarrow> bool" where
  "is_digit c = (c \<in> set ''0123456789'')"

definition is_upper :: "char \<Rightarrow> bool" where
  "is_upper c = (c \<in> set ''ABCDEFGHIJKLMNOPQRSTUVWXYZ'')"

definition is_lower :: "char \<Rightarrow> bool" where
  "is_lower c = (c \<in> set ''abcdefghijklmnopqrstuvwxyz'')"

definition is_alnum :: "char \<Rightarrow> bool" where
  "is_alnum c = (is_lower c \<or> is_upper c \<or> is_digit c)"

text \<open>The characters \<open>str.strip()\<close> and \<open>int()\<close> remove: tab, line feed, vertical tab,
  form feed, carriage return, the four separators \<open>0x1C\<close> to \<open>0x1F\<close>, the space, the next
  line control \<open>0x85\<close> and the no-break space \<open>0xA0\<close>.\<close>

definition is_space :: "char \<Rightarrow> bool" where
  "is_space c = (c \<in> set [CHR 0x09, CHR 0x0A, CHR 0x0B, CHR 0x0C, CHR 0x0D,
                            CHR 0x1C, CHR 0x1D, CHR 0x1E, CHR 0x1F, CHR 0x20,
                            CHR 0x85, CHR 0xA0])"

definition lower_char :: "char \<Rightarrow> char" where
  "lower_char c =
     (case map_of (zip ''ABCDEFGHIJKLMNOPQRSTUVWXYZ'' ''abcdefghijklmnopqrstuvwxyz'') c of
        Some l \<Rightarrow> l
      | None \<Rightarrow> c)"

definition upper_char :: "char \<Rightarrow> char" where
  "upper_char c =
     (case map_of (zip ''abcdefghijklmnopqrstuvwxyz'' ''ABCDEFGHIJKLMNOPQRSTUVWXYZ'') c of
        Some u \<Rightarrow> u
      | None \<Rightarrow> c)"

text \<open>\<open>s.lower()\<close>, \<open>s.upper()\<close> and \<open>s.strip()\<close>.\<close>

definition lower :: "string \<Rightarrow> string" where
  "lower s = map lower_char s"

definition upper :: "string \<Rightarrow> string" where
  "upper s = map upper_char s"

definition strip :: "string \<Rightarrow> string" where
  "strip s = rev (dropWhile is_space (rev (dropWhile is_space s)))"

text \<open>The value of a string of decimal digits, most significant digit first.\<close>

definition digit_val :: "char \<Rightarrow> nat" where
  "digit_val c =
     (case map_of (zip ''0123456789'' [0, 1, 2, 3, 4, 5, 6, 7, 8, 9]) c of
        Some d \<Rightarrow> d
      | None \<Rightarrow> 0)"

fun nat_of_digits :: "nat \<Rightarrow> string \<Rightarrow> nat" where
  "nat_of_digits acc [] = acc"
| "nat_of_digits acc (c # cs) = nat_of_digits (10 * acc + digit_val c) cs"

section \<open>The normalizer: \<open>process_data_for_db\<close> (database.py)\<close>

subsection \<open>Input: the per-country records\<close>

text \<open>
  The value of an indicator's \<open>'value'\<close> key: absent or \<open>None\<close>, a \<open>str\<close>, a number, or
  any other object (a list, a dict), which \<open>float()\<close> rejects with \<open>TypeError\<close>.
  A number is carried as the exact rational it denotes; so is the result of \<open>float()\<close>
  on a decimal string, where Python holds the binary64 value nearest to that rational.
\<close>

datatype py_value = VNone | VStr string | VNum rat | VOther

text \<open>One indicator dict \<open>{'name', 'code', 'value', 'year'}\<close>; \<open>ind_year = None\<close> when the
  key is absent or \<open>None\<close>.\<close>

record indicator_data =
  ind_name :: string
  ind_code :: string
  ind_value :: py_value
  ind_year :: "int option"

text \<open>One country dict. \<open>cd_indicators\<close> is the dict of category to indicator list, in
  insertion order (what \<open>.items()\<close> iterates); the empty list also stands for an absent
  \<open>'indicators'\<close> key, which \<open>country.get('indicators', {})\<close> reads as \<open>{}\<close>.\<close>

record country_data =
  cd_name :: string
  cd_code :: string
  cd_url :: string
  cd_indicators :: "(string \<times> indicator_data list) list"
  cd_region :: "string option"
  cd_income_level :: "string option"
  cd_capital :: "string option"

subsection \<open>Output: the rows of the three tables\<close>

record country_row =
  cr_country_code :: string
  cr_name :: string
  cr_region :: "string option"
  cr_income_level :: "string option"
  cr_capital :: "string option"
  cr_iso2_code :: "string option"
  cr_iso3_code :: "string option"

record indicator_row =
  ir_indicator_code :: string
  ir_name :: string
  ir_category :: "string option"
  ir_description :: string
  ir_source :: string

record value_row =
  vr_country_code :: string
  vr_indicator_code :: string
  vr_year :: int
  vr_value :: rat

type_synonym tables = "country_row list \<times> indicator_row list \<times> value_row list"

subsection \<open>The country row (lines 33 to 42)\<close>

definition iso2_code :: "string \<Rightarrow> string option" where
  "iso2_code country_code =
     (if length country_code \<ge> 2 then Some (lower (take 2 country_code)) else None)"

definition iso3_code :: "string \<Rightarrow> string option" where
  "iso3_code country_code =
     (if length country_code \<ge> 3 then Some (upper (take 3 country_code)) else None)"

definition country_row_of :: "country_data \<Rightarrow> country_row" where
  "country_row_of country =
     \<lparr>cr_country_code = cd_code country,
      cr_name = cd_name country,
      cr_region = cd_region country,
      cr_income_level = cd_income_level country,
      cr_capital = cd_capital country,
      cr_iso2_code = iso2_code (cd_code country),
      cr_iso3_code = iso3_code (cd_code country)\<rparr>"

subsection \<open>The indicator definition (lines 50 to 64)\<close>

text \<open>The linear scan over \<open>indicators\<close> with its \<open>break\<close>.\<close>

fun indicator_exists :: "indicator_row list \<Rightarrow> string \<Rightarrow> bool" where
  "indicator_exists [] indicator_code = False"
| "indicator_exists (existing # rest) indicator_code =
     (if ir_indicator_code existing = indicator_code then True
      else indicator_exists rest indicator_code)"

definition indicator_row_of :: "string \<Rightarrow> indicator_data \<Rightarrow> indicator_row" where
  "indicator_row_of category indicator =
     \<lparr>ir_indicator_code = ind_code indicator,
      ir_name = ind_name indicator,
      ir_category = Some category,
      ir_description = '''',
      ir_source = ''Banco Mundial''\<rparr>"

definition add_indicator :: "string \<Rightarrow> indicator_data \<Rightarrow> indicator_row list \<Rightarrow> indicator_row list" where
  "add_indicator category indicator indicators =
     (if \<not> indicator_exists indicators (ind_code indicator)
      then indicators @ [indicator_row_of category indicator]
      else indicators)"

subsection \<open>The indicator value (lines 66 to 85)\<close>

datatype py_error = ValueError | TypeError

text \<open>\<open>re.sub(r'[^\d.-]', '', value_str)\<close>: every character that is not a digit, a point
  or a minus sign is removed.\<close>

definition is_numeric_char :: "char \<Rightarrow> bool" where
  "is_numeric_char c = (is_digit c \<or> c = CHR ''.'' \<or> c = CHR ''-'')"

definition re_sub_non_numeric :: "string \<Rightarrow> string" where
  "re_sub_non_numeric value_str = filter is_numeric_char value_str"

text \<open>
  \<open>float(s)\<close> on a string of digits, points and minus signs, the only strings the source
  hands to it: an optional leading minus, then digits with at most one point and at
  least one digit; anything else raises \<open>ValueError\<close>. The result is the exact decimal.
\<close>

definition float_of_str :: "string \<Rightarrow> py_error + rat" where
  "float_of_str s =
     (let negative = (s \<noteq> [] \<and> hd s = CHR ''-'');
          body = (if negative then tl s else s);
          int_part = takeWhile is_digit body;
          rest = dropWhile is_digit body;
          sign = (if negative then - 1 else 1)
      in case rest of
           [] \<Rightarrow> if int_part = [] then Inl ValueError
                 else Inr (sign * of_nat (nat_of_digits 0 int_part))
         | c # frac_part \<Rightarrow>
             if c = CHR ''.'' \<and> list_all is_digit frac_part \<and> (int_part \<noteq> [] \<or> frac_part \<noteq> [])
             then Inr (sign * of_nat (nat_of_digits 0 (int_part @ frac_part)) / 10 ^ length frac_part)
             else Inl ValueError)"

text \<open>\<open>float(value_str)\<close> by the type of its argument.\<close>

definition py_float :: "py_value \<Rightarrow> py_error + rat" where
  "py_float v =
     (case v of
        VStr s \<Rightarrow> float_of_str s
      | VNum q \<Rightarrow> Inr q
      | VNone \<Rightarrow> Inl TypeError
      | VOther \<Rightarrow> Inl TypeError)"

text \<open>Truth value of an object: \<open>None\<close>, the empty string and zero are false. For
  \<open>VOther\<close> (a list or a dict) the model takes the non-empty, true case, on which
  \<open>float()\<close> raises; the empty one is skipped as well, through \<open>value = None\<close>.\<close>

definition truthy :: "py_value \<Rightarrow> bool" where
  "truthy v =
     (case v of
        VNone \<Rightarrow> False
      | VStr s \<Rightarrow> s \<noteq> []
      | VNum q \<Rightarrow> q \<noteq> 0
      | VOther \<Rightarrow> True)"

text \<open>Lines 70 to 75, inside the \<open>try\<close>: the cleaned value, \<open>None\<close> for a false
  \<open>value_str\<close>, or the exception \<open>float()\<close> raises.\<close>

definition convert_value :: "py_value \<Rightarrow> py_error + rat option" where
  "convert_value raw =
     (let value_str = (case raw of VStr s \<Rightarrow> VStr (re_sub_non_numeric s) | _ \<Rightarrow> raw)
      in if truthy value_str
         then (case py_float value_str of Inl e \<Rightarrow> Inl e | Inr v \<Rightarrow> Inr (Some v))
         else Inr None)"

text \<open>\<open>indicator.get('year')\<close> as a condition: present and not zero.\<close>

definition year_truthy :: "int option \<Rightarrow> bool" where
  "year_truthy y = (case y of None \<Rightarrow> False | Some n \<Rightarrow> n \<noteq> 0)"

text \<open>Lines 67 to 85: the rows appended to \<open>indicator_values\<close> for one indicator, none
  or one. The \<open>except\<close> branch prints and appends nothing.\<close>

definition value_rows :: "string \<Rightarrow> indicator_data \<Rightarrow> value_row list" where
  "value_rows country_code indicator =
     (if ind_value indicator \<noteq> VNone \<and> year_truthy (ind_year indicator) then
        (case convert_value (ind_value indicator) of
           Inl e \<Rightarrow> []
         | Inr None \<Rightarrow> []
         | Inr (Some v) \<Rightarrow>
             (case ind_year indicator of
                None \<Rightarrow> []
              | Some year \<Rightarrow>
                  [\<lparr>vr_country_code = country_code,
                    vr_indicator_code = ind_code indicator,
                    vr_year = year,
                    vr_value = v\<rparr>]))
      else [])"

subsection \<open>The loops\<close>

text \<open>The body of the innermost loop (lines 47 to 85).\<close>

definition process_indicator :: "string \<Rightarrow> string \<Rightarrow> indicator_data \<Rightarrow> tables \<Rightarrow> tables" where
  "process_indicator country_code category indicator t =
     (case t of (countries, indicators, indicator_values) \<Rightarrow>
        (countries,
         add_indicator category indicator indicators,
         indicator_values @ value_rows country_code indicator))"

text \<open>\<open>for indicator in category_indicators\<close> (line 46).\<close>

fun process_category :: "string \<Rightarrow> string \<Rightarrow> indicator_data list \<Rightarrow> tables \<Rightarrow> tables" where
  "process_category country_code category [] t = t"
| "process_category country_code category (indicator # rest) t =
     process_category country_code category rest
       (process_indicator country_code category indicator t)"

text \<open>\<open>for category, category_indicators in country.get('indicators', {}).items()\<close>
  (line 45).\<close>

fun process_categories :: "string \<Rightarrow> (string \<times> indicator_data list) list \<Rightarrow> tables \<Rightarrow> tables" where
  "process_categories country_code [] t = t"
| "process_categories country_code ((category, category_indicators) # rest) t =
     process_categories country_code rest
       (process_category country_code category category_indicators t)"

text \<open>The body of the outer loop (lines 33 to 85).\<close>

definition process_country :: "country_data \<Rightarrow> tables \<Rightarrow> tables" where
  "process_country country t =
     (case t of (countries, indicators, indicator_values) \<Rightarrow>
        process_categories (cd_code country) (cd_indicators country)
          (countries @ [country_row_of country], indicators, indicator_values))"

text \<open>\<open>for country in countries_data\<close> (line 31).\<close>

fun process_countries :: "country_data list \<Rightarrow> tables \<Rightarrow> tables" where
  "process_countries [] t = t"
| "process_countries (country # rest) t = process_countries rest (process_country country t)"

definition process_data_for_db :: "country_data list \<Rightarrow> tables" where
  "process_data_for_db countries_data = process_countries countries_data ([], [], [])"

section \<open>The extractor (scraper.py)\<close>

definition BASE_URL :: string where
  "BASE_URL = ''https://data.worldbank.org''"

definition COUNTRIES_URL :: string where
  "COUNTRIES_URL = BASE_URL @ ''/country''"

definition INDICATOR_CATEGORIES :: "string list" where
  "INDICATOR_CATEGORIES = [''social'', ''economic'', ''environment'', ''institutions'']"

subsection \<open>String operations of the extractor\<close>

text \<open>\<open>s.startswith(p)\<close>, \<open>s.split('/')[-1]\<close>, \<open>s.split('?')[0]\<close> and \<open>sub in s\<close>.\<close>

definition startswith :: "string \<Rightarrow> string \<Rightarrow> bool" where
  "startswith s p = (take (length p) s = p)"

definition last_segment :: "string \<Rightarrow> string" where
  "last_segment s = rev (takeWhile (\<lambda>c. c \<noteq> CHR ''/'') (rev s))"

definition before_query :: "string \<Rightarrow> string" where
  "before_query s = takeWhile (\<lambda>c. c \<noteq> CHR ''?'') s"

fun is_substring :: "string \<Rightarrow> string \<Rightarrow> bool" where
  "is_substring sub [] = (sub = [])"
| "is_substring sub (c # cs) = (if startswith (c # cs) sub then True else is_substring sub cs)"

text \<open>\<open>str(n)\<close> for a natural number.\<close>

fun str_of_nat :: "nat \<Rightarrow> string" where
  "str_of_nat n =
     (if n < 10 then [''0123456789'' ! n]
      else str_of_nat (n div 10) @ [''0123456789'' ! (n mod 10)])"

declare str_of_nat.simps [simp del]

text \<open>\<open>s.replace(old, '')\<close>: every occurrence of \<open>old\<close> is removed, scanning from the left
  and continuing after each occurrence.\<close>

function remove_all :: "string \<Rightarrow> string \<Rightarrow> string" where
  "remove_all old [] = []"
| "remove_all old (c # cs) =
     (if old \<noteq> [] \<and> startswith (c # cs) old
      then remove_all old (drop (length old) (c # cs))
      else c # remove_all old cs)"
  by pat_completeness auto
termination
  by (relation "measure (\<lambda>(old, s). length s)") (auto simp: neq_Nil_conv)

text \<open>\<open>re.search(r'\((\d{4})\)', value_text)\<close>, then \<open>int(year_match.group(1))\<close>: the four
  digits of the leftmost parenthesised group of exactly four digits.\<close>

fun search_year :: "string \<Rightarrow> nat option" where
  "search_year [] = None"
| "search_year (c # cs) =
     (if c = CHR ''('' \<and> length cs \<ge> 5 \<and> list_all is_digit (take 4 cs) \<and> cs ! 4 = CHR '')''
      then Some (nat_of_digits 0 (take 4 cs))
      else search_year cs)"

subsection \<open>The country list (lines 53 to 76)\<close>

record country_link =
  cl_url :: string
  cl_code :: string
  cl_name :: string

text \<open>Lines 61 to 68, for one anchor given by its \<open>href\<close> and its text.\<close>

definition country_link_of :: "string \<times> string \<Rightarrow> country_link" where
  "country_link_of anchor =
     (let href = fst anchor;
          country_code = before_query (last_segment href);
          country_code = filter (\<lambda>c. is_alnum c \<or> c = CHR ''-'') country_code
      in \<lparr>cl_url = BASE_URL @ href, cl_code = country_code, cl_name = strip (snd anchor)\<rparr>)"

text \<open>Lines 57 to 68: the candidates, one per anchor whose \<open>href\<close> starts with
  \<open>/country/\<close>, in page order.\<close>

definition country_links :: "(string \<times> string) list \<Rightarrow> country_link list" where
  "country_links anchors =
     map country_link_of
       (filter (\<lambda>anchor. fst anchor \<noteq> [] \<and> startswith (fst anchor) ''/country/'') anchors)"

text \<open>Lines 71 to 76: the loop over the candidates with its two accumulators.\<close>

fun remove_duplicates ::
  "country_link list \<Rightarrow> country_link list \<Rightarrow> string set \<Rightarrow> country_link list" where
  "remove_duplicates [] unique_links seen_codes = unique_links"
| "remove_duplicates (country # rest) unique_links seen_codes =
     (if cl_code country \<notin> seen_codes \<and> cl_name country \<noteq> []
      then remove_duplicates rest (unique_links @ [country]) (insert (cl_code country) seen_codes)
      else remove_duplicates rest unique_links seen_codes)"

subsection \<open>The page of one country (lines 106 to 156)\<close>

text \<open>
  What the source reads from the parsed markup. A row is an element matched by
  \<open>section.find_all(['tr', 'div'], class_=...)\<close>, with the text of its name-like and of
  its value-like sub-element (\<open>None\<close> when \<open>find\<close> returns nothing). A section is an
  element matched by \<open>soup.find_all(['section', 'div'], class_=...)\<close>, with its
  \<open>get_text()\<close> and its rows. \<open>cp_region\<close> and \<open>cp_income\<close> are the text of the element
  after the label, when label and element both exist.
\<close>

record page_row =
  row_name :: "string option"
  row_value :: "string option"

record page_section =
  section_text :: string
  section_rows :: "page_row list"

record country_page =
  cp_region :: "string option"
  cp_income :: "string option"
  cp_sections :: "page_section list"

text \<open>Lines 140 to 156, for the text of the name element and of the value element.\<close>

definition indicator_of_row :: "string \<Rightarrow> string \<Rightarrow> indicator_data" where
  "indicator_of_row name_text value_element_text =
     (let indicator_name = strip name_text;
          value_text = strip value_element_text;
          year = (case search_year value_text of Some y \<Rightarrow> y | None \<Rightarrow> 2023);
          indicator_code = lower (map (\<lambda>c. if is_alnum c then c else CHR ''_'') indicator_name)
      in \<lparr>ind_name = indicator_name,
          ind_code = indicator_code,
          ind_value = VStr (strip (remove_all (''('' @ str_of_nat year @ '')'') value_text)),
          ind_year = Some (int year)\<rparr>)"

text \<open>Lines 134 to 156: the indicators of the rows of one section.\<close>

definition section_indicators :: "page_section \<Rightarrow> indicator_data list" where
  "section_indicators section =
     concat (map (\<lambda>element.
        case (row_name element, row_value element) of
          (Some name_text, Some value_text) \<Rightarrow> [indicator_of_row name_text value_text]
        | _ \<Rightarrow> []) (section_rows section))"

text \<open>Lines 131 to 156: the indicators of one category, from every section whose text
  mentions the category.\<close>

definition category_indicators :: "country_page \<Rightarrow> string \<Rightarrow> indicator_data list" where
  "category_indicators page category =
     concat (map (\<lambda>section.
        if is_substring (lower category) (lower (section_text section))
        then section_indicators section else []) (cp_sections page))"

text \<open>Lines 107 to 156: the record built from the parsed page.\<close>

definition country_data_of :: "country_page \<Rightarrow> string \<Rightarrow> string \<Rightarrow> string \<Rightarrow> country_data" where
  "country_data_of page country_url country_code country_name =
     \<lparr>cd_name = country_name,
      cd_code = country_code,
      cd_url = country_url,
      cd_indicators = map (\<lambda>category. (category, category_indicators page category))
                          INDICATOR_CATEGORIES,
      cd_region = map_option strip (cp_region page),
      cd_income_level = map_option strip (cp_income page),
      cd_capital = None\<rparr>"

section \<open>The store and its loader (database.py)\<close>

record database =
  db_countries :: "country_row list"
  db_indicators :: "indicator_row list"
  db_indicator_values :: "value_row list"

text \<open>The places of \<open>create_database_from_data\<close> at which the store or the library can
  raise. Every one of them is inside the \<open>try\<close>, whose \<open>except Exception\<close> returns
  \<open>False\<close>.\<close>

datatype db_step = Connect | CreateTables | InsertCountries | InsertIndicators | InsertValues
  | CreateIndexes

section \<open>The outside world\<close>

text \<open>
  The calls that leave the program, each with the exception it may raise:
  \<open>http_get url\<close> is \<open>requests.get\<close> followed by \<open>raise_for_status\<close>, giving the page
  text; \<open>find_anchors\<close> and \<open>parse_country_page\<close> are the queries on the parsed markup;
  \<open>write_json path\<close> is \<open>open\<close> followed by \<open>json.dump\<close>; \<open>db_raises step\<close> says that
  the store raises at that step of a load.
\<close>

datatype io_error = RequestException | HTTPError | OSError

record world =
  http_get :: "string \<Rightarrow> io_error + string"
  find_anchors :: "string \<Rightarrow> (string \<times> string) list"
  parse_country_page :: "string \<Rightarrow> country_page"
  write_json :: "string \<Rightarrow> io_error + unit"
  db_raises :: "db_step \<Rightarrow> bool"

subsection \<open>\<open>get_country_list\<close> and \<open>get_country_data\<close>\<close>

text \<open>The whole body is inside \<open>try\<close>; \<open>except Exception\<close> returns \<open>[]\<close>.\<close>

definition get_country_list :: "world \<Rightarrow> country_link list" where
  "get_country_list w =
     (case http_get w COUNTRIES_URL of
        Inl e \<Rightarrow> []
      | Inr html \<Rightarrow>
          (let unique_links = remove_duplicates (country_links (find_anchors w html)) [] {}
           in case write_json w ''data/raw/country_list.json'' of
                Inl e \<Rightarrow> []
              | Inr u \<Rightarrow> unique_links))"

text \<open>The whole body is inside \<open>try\<close>; \<open>except Exception\<close> returns \<open>None\<close>.\<close>

definition get_country_data :: "world \<Rightarrow> string \<Rightarrow> string \<Rightarrow> string \<Rightarrow> country_data option" where
  "get_country_data w country_url country_code country_name =
     (case http_get w country_url of
        Inl e \<Rightarrow> None
      | Inr html \<Rightarrow>
          (let country_data =
                 country_data_of (parse_country_page w html) country_url country_code country_name
           in case write_json w (''data/raw/'' @ country_code @ ''.json'') of
                Inl e \<Rightarrow> None
              | Inr u \<Rightarrow> Some country_data))"

subsection \<open>\<open>create_database_from_data\<close>\<close>

text \<open>
  The result is \<open>None\<close> when the function returns \<open>False\<close> (the state of the store after
  a failed load is not modelled) and the store after the load when it returns \<open>True\<close>.
  \<open>to_sql(..., if_exists="replace")\<close> drops the table and writes the rows of the frame;
  the table of indicators and the table of values are written only when the frame is
  not empty. The table of countries is written in every case; whether the library
  accepts a frame without rows there is part of \<open>raises InsertCountries\<close>.
\<close>

definition create_database_from_data ::
  "(db_step \<Rightarrow> bool) \<Rightarrow> country_row list \<Rightarrow> indicator_row list \<Rightarrow> value_row list \<Rightarrow>
   database \<Rightarrow> database option" where
  "create_database_from_data raises countries indicators indicator_values db =
     (if raises Connect \<or> raises CreateTables then None
      else if raises InsertCountries then None
      else let db = db\<lparr>db_countries := countries\<rparr> in
        if indicators \<noteq> [] \<and> raises InsertIndicators then None
        else let db = (if indicators \<noteq> [] then db\<lparr>db_indicators := indicators\<rparr> else db) in
          if indicator_values \<noteq> [] \<and> raises InsertValues then None
          else let db = (if indicator_values \<noteq> []
                         then db\<lparr>db_indicator_values := indicator_values\<rparr> else db) in
            if raises CreateIndexes then None else Some db)"

section \<open>The setup script (setup.py)\<close>

text \<open>\<open>xs[:limit]\<close>: a negative limit counts from the end.\<close>

definition slice_to :: "int \<Rightarrow> 'a list \<Rightarrow> 'a list" where
  "slice_to limit xs =
     (if limit \<ge> 0 then take (nat limit) xs else take (nat (int (length xs) + limit)) xs)"

text \<open>Lines 36 to 40: the records of the countries for which \<open>get_country_data\<close> gave
  one.\<close>

fun collect_countries_data :: "world \<Rightarrow> country_link list \<Rightarrow> country_data list" where
  "collect_countries_data w [] = []"
| "collect_countries_data w (country # rest) =
     (case get_country_data w (cl_url country) (cl_code country) (cl_name country) of
        Some country_data \<Rightarrow> country_data # collect_countries_data w rest
      | None \<Rightarrow> collect_countries_data w rest)"

text \<open>\<open>setup_data\<close>: \<open>None\<close> when it returns \<open>False\<close>, the store after the load when it
  returns \<open>True\<close>.\<close>

definition setup_data :: "world \<Rightarrow> int \<Rightarrow> database \<Rightarrow> database option" where
  "setup_data w limit db =
     (let countries = get_country_list w in
      if countries = [] then None
      else let countries_data = collect_countries_data w (slice_to limit countries) in
        if countries_data = [] then None
        else (case process_data_for_db countries_data of
                (countries, indicators, indicator_values) \<Rightarrow>
                  create_database_from_data (db_raises w) countries indicators indicator_values db))"





section \<open>The profile query (api.py)\<close>




















section \<open>Notions used in the statements\<close>

text \<open>The indicator occurrences of the input, in the order in which the three nested
  loops of \<open>process_data_for_db\<close> visit them: by country, then by category, then by
  position. Each occurrence carries its country code and its category.\<close>

definition category_occurrences ::
  "string \<Rightarrow> string \<times> indicator_data list \<Rightarrow> (string \<times> string \<times> indicator_data) list" where
  "category_occurrences country_code item =
     map (\<lambda>indicator. (country_code, fst item, indicator)) (snd item)"

definition country_occurrences :: "country_data \<Rightarrow> (string \<times> string \<times> indicator_data) list" where
  "country_occurrences country =
     concat (map (category_occurrences (cd_code country)) (cd_indicators country))"

definition occurrences :: "country_data list \<Rightarrow> (string \<times> string \<times> indicator_data) list" where
  "occurrences countries_data = concat (map country_occurrences countries_data)"

definition note_indicator ::
  "string \<times> string \<times> indicator_data \<Rightarrow> indicator_row list \<Rightarrow> indicator_row list" where
  "note_indicator occ indicators = add_indicator (fst (snd occ)) (snd (snd occ)) indicators"

definition rows_of_occurrence :: "string \<times> string \<times> indicator_data \<Rightarrow> value_row list" where
  "rows_of_occurrence occ = value_rows (fst occ) (snd (snd occ))"

section \<open>Example data\<close>

definition gdp_2020 :: indicator_data where
  "gdp_2020 = \<lparr>ind_name = ''GDP'', ind_code = ''gdp'', ind_value = VStr ''1,444.7'',
                ind_year = Some 2020\<rparr>"

definition gdp_no_year :: indicator_data where
  "gdp_no_year = \<lparr>ind_name = ''GDP'', ind_code = ''gdp'', ind_value = VStr ''1,444.7 (2020)'',
                   ind_year = None\<rparr>"

definition gdp_renamed :: indicator_data where
  "gdp_renamed = \<lparr>ind_name = ''Gross domestic product'', ind_code = ''gdp'',
                   ind_value = VStr ''487.2'', ind_year = Some 2021\<rparr>"


definition brazil :: "(string \<times> indicator_data list) list \<Rightarrow> country_data" where
  "brazil indicators =
     \<lparr>cd_name = ''Brazil'', cd_code = ''BRA'',
      cd_url = ''https://data.worldbank.org/country/BRA'', cd_indicators = indicators,
      cd_region = None, cd_income_level = None, cd_capital = None\<rparr>"

definition argentina :: "(string \<times> indicator_data list) list \<Rightarrow> country_data" where
  "argentina indicators =
     \<lparr>cd_name = ''Argentina'', cd_code = ''AR'',
      cd_url = ''https://data.worldbank.org/country/AR'', cd_indicators = indicators,
      cd_region = None, cd_income_level = None, cd_capital = None\<rparr>"

definition brazil_row :: country_row where
  "brazil_row =
     \<lparr>cr_country_code = ''BRA'', cr_name = ''Brazil'', cr_region = None,
      cr_income_level = None, cr_capital = None,
      cr_iso2_code = Some ''br'', cr_iso3_code = Some ''BRA''\<rparr>"

definition gdp_row :: "string \<Rightarrow> indicator_row" where
  "gdp_row category =
     \<lparr>ir_indicator_code = ''gdp'', ir_name = ''GDP'', ir_category = Some category,
      ir_description = '''', ir_source = ''Banco Mundial''\<rparr>"

definition gdp_value_row :: value_row where
  "gdp_value_row =
     \<lparr>vr_country_code = ''BRA'', vr_indicator_code = ''gdp'', vr_year = 2020,
      vr_value = 14447 / 10\<rparr>"

text \<open>A country page with one section whose text mentions two categories.\<close>

definition mixed_page :: country_page where
  "mixed_page =
     \<lparr>cp_region = None, cp_income = None,
      cp_sections =
        [\<lparr>section_text = ''Social and Economic data GDP 1,444.7 (2020)'',
          section_rows = [\<lparr>row_name = Some ''GDP'', row_value = Some ''1,444.7 (2020)''\<rparr>]\<rparr>]\<rparr>"

text \<open>The anchors of a listing page: a link to Brazil around an image, without text,
  before the link that carries the name.\<close>

definition listing_anchors :: "(string \<times> string) list" where
  "listing_anchors =
     [(''/country/BR'', ''  ''), (''/about'', ''About''), (''/country/AR'', ''Argentina''),
      (''/country/BR?view=chart'', '' Brazil ''), (''/country/AR'', ''Argentina (again)'')]"


definition bra_text_link :: country_link where
  "bra_text_link =
     \<lparr>cl_url = ''https://data.worldbank.org/country/BR?view=chart'', cl_code = ''BR'',
      cl_name = ''Brazil''\<rparr>"

definition arg_link :: country_link where
  "arg_link =
     \<lparr>cl_url = ''https://data.worldbank.org/country/AR'', cl_code = ''AR'',
      cl_name = ''Argentina''\<rparr>"

definition plain_page :: country_page where
  "plain_page = \<lparr>cp_region = Some '' Latin America '', cp_income = None, cp_sections = []\<rparr>"

definition never_raises :: "db_step \<Rightarrow> bool" where
  "never_raises step = False"

text \<open>A world without network, and one in which only the page of Argentina fails.\<close>

definition offline :: world where
  "offline =
     \<lparr>http_get = (\<lambda>url. Inl RequestException), find_anchors = (\<lambda>html. []),
      parse_country_page = (\<lambda>html. plain_page), write_json = (\<lambda>path. Inr ()),
      db_raises = never_raises\<rparr>"

definition online :: world where
  "online =
     \<lparr>http_get = (\<lambda>url. if url = ''https://data.worldbank.org/country/AR''
                          then Inl HTTPError else Inr url),
      find_anchors = (\<lambda>html. listing_anchors),
      parse_country_page = (\<lambda>html. plain_page), write_json = (\<lambda>path. Inr ()),
      db_raises = never_raises\<rparr>"

text \<open>A world in which every page can be fetched, and the row of Argentina built from
  \<open>plain_page\<close>.\<close>

definition reachable :: world where
  "reachable =
     \<lparr>http_get = (\<lambda>url. Inr url),
      find_anchors = (\<lambda>html. listing_anchors),
      parse_country_page = (\<lambda>html. plain_page), write_json = (\<lambda>path. Inr ()),
      db_raises = never_raises\<rparr>"

definition argentina_row :: country_row where
  "argentina_row =
     \<lparr>cr_country_code = ''AR'', cr_name = ''Argentina'', cr_region = Some ''Latin America'',
      cr_income_level = None, cr_capital = None,
      cr_iso2_code = Some ''ar'', cr_iso3_code = None\<rparr>"

definition empty_db :: database where
  "empty_db = \<lparr>db_countries = [], db_indicators = [], db_indicator_values = []\<rparr>"

text \<open>A store left by an earlier load.\<close>

definition stale_db :: database where
  "stale_db =
     \<lparr>db_countries = [], db_indicators = [gdp_row ''economic''],
      db_indicator_values = [gdp_value_row]\<rparr>"









section \<open>Properties of the normalizer\<close>

subsection \<open>The three loops, flattened\<close>

lemma process_category_flat:
  "process_category cc cat inds (cs, is, vs) =
     (cs, fold note_indicator (category_occurrences cc (cat, inds)) is,
      vs @ concat (map rows_of_occurrence (category_occurrences cc (cat, inds))))"
  by (induction inds arbitrary: "is" vs)
     (simp_all add: category_occurrences_def process_indicator_def note_indicator_def
        rows_of_occurrence_def)

lemma process_categories_flat:
  "process_categories cc items (cs, is, vs) =
     (cs, fold note_indicator (concat (map (category_occurrences cc) items)) is,
      vs @ concat (map rows_of_occurrence (concat (map (category_occurrences cc) items))))"
proof (induction items arbitrary: "is" vs)
  case Nil
  show ?case by simp
next
  case (Cons item items)
  obtain cat inds where item: "item = (cat, inds)" by (cases item)
  show ?case
    by (simp add: item process_category_flat Cons.IH)
qed

lemma process_country_flat:
  "process_country c (cs, is, vs) =
     (cs @ [country_row_of c], fold note_indicator (country_occurrences c) is,
      vs @ concat (map rows_of_occurrence (country_occurrences c)))"
  by (simp add: process_country_def process_categories_flat country_occurrences_def)

lemma process_countries_flat:
  "process_countries cd (cs, is, vs) =
     (cs @ map country_row_of cd, fold note_indicator (occurrences cd) is,
      vs @ concat (map rows_of_occurrence (occurrences cd)))"
  by (induction cd arbitrary: cs "is" vs)
     (simp_all add: process_country_flat occurrences_def)

lemma process_data_for_db_flat:
  "process_data_for_db cd =
     (map country_row_of cd, fold note_indicator (occurrences cd) [],
      concat (map rows_of_occurrence (occurrences cd)))"
  by (simp add: process_data_for_db_def process_countries_flat)

subsection \<open>Evaluation on the example data\<close>

lemma brazil_country_row: "country_row_of (brazil items) = brazil_row"
  by (simp add: country_row_of_def brazil_def brazil_row_def iso2_code_def iso3_code_def
      lower_def upper_def lower_char_def upper_char_def)

lemma brazil_fields: "cd_code (brazil items) = ''BRA''" "cd_indicators (brazil items) = items"
  by (simp_all add: brazil_def)

lemma argentina_fields:
  "cd_code (argentina items) = ''AR''" "cd_indicators (argentina items) = items"
  by (simp_all add: argentina_def)

lemma gdp_fields:
  "ind_code gdp_2020 = ''gdp''" "ind_name gdp_2020 = ''GDP''"
  "ind_code gdp_no_year = ''gdp''" "ind_name gdp_no_year = ''GDP''"
  "ind_code gdp_renamed = ''gdp''" "ind_name gdp_renamed = ''Gross domestic product''"
  by (simp_all add: gdp_2020_def gdp_no_year_def gdp_renamed_def)

lemma gdp_indicator_row:
  "ind_code i = ''gdp'' \<Longrightarrow> ind_name i = ''GDP'' \<Longrightarrow> indicator_row_of category i = gdp_row category"
  by (simp add: indicator_row_of_def gdp_row_def)

lemma convert_1444_7: "convert_value (VStr ''1,444.7'') = Inr (Some (14447 / 10))"
  by (simp add: convert_value_def re_sub_non_numeric_def is_numeric_char_def is_digit_def
      truthy_def py_float_def float_of_str_def digit_val_def)

lemma value_rows_gdp_2020: "value_rows ''BRA'' gdp_2020 = [gdp_value_row]"
  by (simp add: value_rows_def gdp_2020_def convert_1444_7 year_truthy_def gdp_value_row_def)

lemma value_rows_gdp_no_year: "value_rows ''BRA'' gdp_no_year = []"
  by (simp add: value_rows_def gdp_no_year_def year_truthy_def)

lemma indicator_of_row_gdp: "indicator_of_row ''GDP'' ''1,444.7 (2020)'' = gdp_2020"
  by code_simp

lemma country_data_of_mixed_page:
  "country_data_of mixed_page ''https://data.worldbank.org/country/BRA'' ''BRA'' ''Brazil''
   = brazil [(''social'', [gdp_2020]), (''economic'', [gdp_2020]),
             (''environment'', []), (''institutions'', [])]"
  by code_simp

lemmas normalizer_eval = process_data_for_db_flat occurrences_def country_occurrences_def
  category_occurrences_def note_indicator_def rows_of_occurrence_def add_indicator_def
  brazil_fields argentina_fields brazil_country_row gdp_fields gdp_indicator_row

subsection \<open>Country rows\<close>

text \<open>
  Claim C10. For every per-country input record, the country row that
  \<open>process_data_for_db\<close> emits for it carries as \<open>iso2_code\<close> the first two characters of
  the country code in lower case when the code has at least two characters, and null
  otherwise; and as \<open>iso3_code\<close> the first three characters of the country code in upper
  case when the code has at least three characters, and null otherwise.
\<close>

theorem iso_codes_derived:
  "map cr_iso2_code (fst (process_data_for_db countries_data)) =
     map (\<lambda>country. if length (cd_code country) \<ge> 2
                     then Some (lower (take 2 (cd_code country))) else None) countries_data
   \<and> map cr_iso3_code (fst (process_data_for_db countries_data)) =
     map (\<lambda>country. if length (cd_code country) \<ge> 3
                     then Some (upper (take 3 (cd_code country))) else None) countries_data"
  by (simp add: process_data_for_db_flat country_row_of_def iso2_code_def iso3_code_def)

theorem iso_codes_derived_witness:
  "map cr_iso2_code (fst (process_data_for_db [brazil [], argentina []]))
     = [Some ''br'', Some ''ar'']
   \<and> map cr_iso3_code (fst (process_data_for_db [brazil [], argentina []]))
     = [Some ''BRA'', None]"
  using iso_codes_derived [of "[brazil [], argentina []]"]
  by (simp add: brazil_fields argentina_fields lower_def upper_def lower_char_def upper_char_def)

subsection \<open>Indicator definitions\<close>

lemma find_holds: "find P xs = Some x \<Longrightarrow> P x"
  by (induction xs) (auto split: if_splits)

lemma indicator_exists_filter:
  "indicator_exists acc k \<longleftrightarrow> filter (\<lambda>d. ir_indicator_code d = k) acc \<noteq> []"
  by (induction acc) simp_all

lemma indicator_exists_append:
  "indicator_exists (acc @ [r]) k \<longleftrightarrow> indicator_exists acc k \<or> ir_indicator_code r = k"
  by (induction acc) auto

lemma indicator_exists_set:
  "indicator_exists acc k \<longleftrightarrow> k \<in> set (map ir_indicator_code acc)"
  by (induction acc) auto

lemma code_indicator_row_of: "ir_indicator_code (indicator_row_of cat i) = ind_code i"
  by (simp add: indicator_row_of_def)

lemma filter_fold_note_indicator:
  "filter (\<lambda>d. ir_indicator_code d = k) (fold note_indicator occs acc) =
     (if indicator_exists acc k then filter (\<lambda>d. ir_indicator_code d = k) acc
      else case find (\<lambda>occ. ind_code (snd (snd occ)) = k) occs of
             None \<Rightarrow> []
           | Some occ \<Rightarrow> [indicator_row_of (fst (snd occ)) (snd (snd occ))])"
proof (induction occs arbitrary: acc)
  case Nil
  show ?case by (simp add: indicator_exists_filter)
next
  case (Cons occ occs)
  show ?case
  proof (cases "indicator_exists acc k")
    case True
    then have "indicator_exists (note_indicator occ acc) k"
      by (simp add: note_indicator_def add_indicator_def indicator_exists_append)
    moreover from True have "filter (\<lambda>d. ir_indicator_code d = k) (note_indicator occ acc)
        = filter (\<lambda>d. ir_indicator_code d = k) acc"
      by (auto simp: note_indicator_def add_indicator_def code_indicator_row_of)
    ultimately show ?thesis using True by (simp add: Cons.IH)
  next
    case False
    then have empty: "filter (\<lambda>d. ir_indicator_code d = k) acc = []"
      by (simp add: indicator_exists_filter)
    show ?thesis
    proof (cases "ind_code (snd (snd occ)) = k")
      case True
      with False have
        "note_indicator occ acc = acc @ [indicator_row_of (fst (snd occ)) (snd (snd occ))]"
        by (simp add: note_indicator_def add_indicator_def)
      with True False empty show ?thesis
        by (simp add: Cons.IH indicator_exists_append code_indicator_row_of)
    next
      case neq: False
      with False have "\<not> indicator_exists (note_indicator occ acc) k"
        by (simp add: note_indicator_def add_indicator_def indicator_exists_append
            code_indicator_row_of)
      with neq False show ?thesis by (simp add: Cons.IH)
    qed
  qed
qed

lemma distinct_fold_note_indicator:
  "distinct (map ir_indicator_code acc) \<Longrightarrow>
   distinct (map ir_indicator_code (fold note_indicator occs acc))"
proof (induction occs arbitrary: acc)
  case Nil
  then show ?case by simp
next
  case (Cons occ occs)
  from Cons.prems have "distinct (map ir_indicator_code (note_indicator occ acc))"
    by (simp add: note_indicator_def add_indicator_def indicator_exists_set code_indicator_row_of)
  then show ?case by (simp add: Cons.IH)
qed

text \<open>
  Claim C5. For every input sequence of per-country records and every indicator code
  that occurs in it, the indicators emitted by \<open>process_data_for_db\<close> hold exactly one
  definition with that code, and it carries the name and the category of the first
  occurrence of the code in iteration order across all countries and categories
  (with the empty description and the constant source); later occurrences add nothing.
  No two emitted definitions share a code.
\<close>

theorem first_indicator_definition_retained:
  assumes "find (\<lambda>occ. ind_code (snd (snd occ)) = code) (occurrences countries_data)
             = Some (country_code, category, indicator)"
  shows "filter (\<lambda>d. ir_indicator_code d = code) (fst (snd (process_data_for_db countries_data)))
           = [\<lparr>ir_indicator_code = code, ir_name = ind_name indicator,
                ir_category = Some category, ir_description = '''',
                ir_source = ''Banco Mundial''\<rparr>]
         \<and> distinct (map ir_indicator_code (fst (snd (process_data_for_db countries_data))))"
proof -
  from find_holds [OF assms] have "ind_code indicator = code"
    by simp
  with assms show ?thesis
    by (simp add: process_data_for_db_flat filter_fold_note_indicator distinct_fold_note_indicator
        indicator_row_of_def)
qed

theorem first_indicator_definition_retained_witness:
  "find (\<lambda>occ. ind_code (snd (snd occ)) = ''gdp'')
     (occurrences [brazil [(''economic'', [gdp_2020])], argentina [(''social'', [gdp_renamed])]])
     = Some (''BRA'', ''economic'', gdp_2020)
   \<and> filter (\<lambda>d. ir_indicator_code d = ''gdp'')
       (fst (snd (process_data_for_db
          [brazil [(''economic'', [gdp_2020])], argentina [(''social'', [gdp_renamed])]])))
     = [gdp_row ''economic'']"
proof -
  have first: "find (\<lambda>occ. ind_code (snd (snd occ)) = ''gdp'')
     (occurrences [brazil [(''economic'', [gdp_2020])], argentina [(''social'', [gdp_renamed])]])
     = Some (''BRA'', ''economic'', gdp_2020)"
    by (simp add: occurrences_def country_occurrences_def category_occurrences_def
        brazil_fields argentina_fields gdp_fields)
  from first first_indicator_definition_retained [OF first] show ?thesis
    by (simp add: gdp_fields gdp_row_def)
qed

subsection \<open>Indicator values\<close>







text \<open>
  Claim C2, as amended. On the record of the scenario, whose indicator has the value
  text \<open>"1,444.7 (2020)"\<close> and no year, \<open>process_data_for_db\<close> emits country \<open>BRA\<close> and
  indicator \<open>gdp\<close> with category \<open>economic\<close>, and no value row. The year is parsed from
  the value text by the extractor: from the name \<open>"GDP"\<close> and the value text
  \<open>"1,444.7 (2020)"\<close> it builds the indicator with value \<open>"1,444.7"\<close> and year 2020
  (not the default 2023), and on the record holding that indicator
  \<open>process_data_for_db\<close> emits exactly the one value row (BRA, gdp, 2020, 1444.7).
\<close>

theorem scenario_year_parsed_by_extractor:
  "process_data_for_db [brazil [(''economic'', [gdp_no_year])]]
     = ([brazil_row], [gdp_row ''economic''], [])
   \<and> indicator_of_row ''GDP'' ''1,444.7 (2020)'' = gdp_2020
   \<and> process_data_for_db [brazil [(''economic'', [indicator_of_row ''GDP'' ''1,444.7 (2020)''])]]
     = ([brazil_row], [gdp_row ''economic''], [gdp_value_row])"
  by (simp add: indicator_of_row_gdp normalizer_eval value_rows_gdp_2020 value_rows_gdp_no_year)

text \<open>The claim as stated fails: on the record without a year the normalizer does not
  emit the value row (BRA, gdp, 2020, 1444.7).\<close>

theorem scenario_without_year_counterexample:
  "snd (snd (process_data_for_db [brazil [(''economic'', [gdp_no_year])]])) \<noteq> [gdp_value_row]"
  by (simp add: normalizer_eval value_rows_gdp_no_year)

text \<open>
  Claim C1. The triple (country code, indicator code, year) should be unique across
  the emitted value rows. The code appends one row per occurrence and never compares
  it with the rows already emitted: the page \<open>mixed_page\<close>, whose one section mentions
  two categories, gives a record listing the same indicator under both, and on that
  record \<open>process_data_for_db\<close> emits the same triple twice.
\<close>

theorem duplicate_value_rows:
  "country_data_of mixed_page ''https://data.worldbank.org/country/BRA'' ''BRA'' ''Brazil''
     = brazil [(''social'', [gdp_2020]), (''economic'', [gdp_2020]),
               (''environment'', []), (''institutions'', [])]
   \<and> snd (snd (process_data_for_db
        [country_data_of mixed_page ''https://data.worldbank.org/country/BRA'' ''BRA'' ''Brazil'']))
     = [gdp_value_row, gdp_value_row]
   \<and> \<not> distinct (map (\<lambda>v. (vr_country_code v, vr_indicator_code v, vr_year v))
        (snd (snd (process_data_for_db
           [country_data_of mixed_page ''https://data.worldbank.org/country/BRA'' ''BRA''
              ''Brazil'']))))"
  by (simp add: country_data_of_mixed_page normalizer_eval value_rows_gdp_2020)

section \<open>Properties of the extractor\<close>

subsection \<open>The country list\<close>













subsection \<open>Failures\<close>

lemma collect_countries_data_append:
  "collect_countries_data w (xs @ ys) = collect_countries_data w xs @ collect_countries_data w ys"
  by (induction xs) (simp_all split: option.splits)

text \<open>
  Claim C7. Scraping failures are contained. When fetching the listing page or writing
  the list fails, \<open>get_country_list\<close> returns the empty sequence. When fetching the page
  of a country or writing its record fails, \<open>get_country_data\<close> yields no record
  (\<open>None\<close>). A country without a record is left out by the loop of \<open>setup_data\<close>, which
  goes on with the remaining countries: the records collected are those of the
  countries before it followed by those of the countries after it. Both functions
  return a value in every case, so nothing is raised past them.
\<close>

theorem scraping_failures_contained:
  "(http_get w COUNTRIES_URL = Inl e \<or> write_json w ''data/raw/country_list.json'' = Inl e
      \<longrightarrow> get_country_list w = [])
   \<and> (http_get w country_url = Inl e
        \<or> write_json w (''data/raw/'' @ country_code @ ''.json'') = Inl e
      \<longrightarrow> get_country_data w country_url country_code country_name = None)
   \<and> (get_country_data w (cl_url country) (cl_code country) (cl_name country) = None
      \<longrightarrow> collect_countries_data w (before @ country # rest)
            = collect_countries_data w before @ collect_countries_data w rest)"
  by (auto simp: get_country_list_def get_country_data_def collect_countries_data_append Let_def
      split: sum.splits)

theorem scraping_failures_contained_witness:
  "http_get offline COUNTRIES_URL = Inl RequestException
   \<and> get_country_list offline = []
   \<and> http_get online (cl_url arg_link) = Inl HTTPError
   \<and> get_country_data online (cl_url arg_link) (cl_code arg_link) (cl_name arg_link) = None
   \<and> collect_countries_data online ([] @ arg_link # [bra_text_link])
       = collect_countries_data online [] @ collect_countries_data online [bra_text_link]
   \<and> map cd_code (collect_countries_data online [bra_text_link]) = [''BR'']"
proof -
  have no_list: "http_get offline COUNTRIES_URL = Inl RequestException"
    by (simp add: offline_def)
  have no_page: "http_get online (cl_url arg_link) = Inl HTTPError"
    by (simp add: online_def arg_link_def)
  have brazil_found: "map cd_code (collect_countries_data online [bra_text_link]) = [''BR'']"
    by code_simp
  from no_list
    scraping_failures_contained [of offline RequestException "''''" "''''" "''''" arg_link "[]" "[]"]
  have list_empty: "get_country_list offline = []"
    by blast
  note at_argentina = scraping_failures_contained [of online HTTPError "cl_url arg_link"
      "cl_code arg_link" "cl_name arg_link" arg_link "[]" "[bra_text_link]"]
  from no_page at_argentina
  have no_record:
    "get_country_data online (cl_url arg_link) (cl_code arg_link) (cl_name arg_link) = None"
    by blast
  with at_argentina
  have continues: "collect_countries_data online ([] @ arg_link # [bra_text_link])
       = collect_countries_data online [] @ collect_countries_data online [bra_text_link]"
    by blast
  from no_list list_empty no_page no_record continues brazil_found show ?thesis
    by (simp only:)
qed

section \<open>Properties of the loader\<close>

text \<open>
  Claim C6, as amended. A successful load replaces the whole contents of the table of
  countries with the supplied collection, and the whole contents of the table of
  indicators and of the table of indicator values with the supplied collection when
  that collection is not empty; a table whose supplied collection is empty is not
  written and keeps the rows it had before the load. When the store raises at no step,
  the load is successful.
\<close>

theorem load_replaces_tables:
  "(create_database_from_data raises countries indicators indicator_values db = Some db' \<longrightarrow>
      db_countries db' = countries
      \<and> db_indicators db' = (if indicators = [] then db_indicators db else indicators)
      \<and> db_indicator_values db' =
          (if indicator_values = [] then db_indicator_values db else indicator_values))
   \<and> ((\<forall>step. \<not> raises step) \<longrightarrow>
        create_database_from_data raises countries indicators indicator_values db \<noteq> None)"
  by (auto simp: create_database_from_data_def Let_def split: if_splits)

theorem load_replaces_tables_witness:
  "create_database_from_data never_raises [brazil_row] [gdp_row ''social''] [] stale_db
     = Some \<lparr>db_countries = [brazil_row], db_indicators = [gdp_row ''social''],
             db_indicator_values = [gdp_value_row]\<rparr>
   \<and> (\<forall>step. \<not> never_raises step)"
proof -
  have ok: "\<forall>step. \<not> never_raises step"
    by (simp add: never_raises_def)
  with load_replaces_tables [of never_raises "[brazil_row]" "[gdp_row ''social'']" "[]" stale_db]
  obtain db' where
    db': "create_database_from_data never_raises [brazil_row] [gdp_row ''social''] [] stale_db
            = Some db'"
    by blast
  with load_replaces_tables [of never_raises "[brazil_row]" "[gdp_row ''social'']" "[]" stale_db db']
  have "db_countries db' = [brazil_row]" "db_indicators db' = [gdp_row ''social'']"
    "db_indicator_values db' = [gdp_value_row]"
    by (simp_all add: stale_db_def)
  then have "db' = \<lparr>db_countries = [brazil_row], db_indicators = [gdp_row ''social''],
             db_indicator_values = [gdp_value_row]\<rparr>"
    by (cases db') simp
  with db' ok show ?thesis by simp
qed

text \<open>The claim as stated fails for an empty collection: a successful load of one
  country with no indicators and no values into a store that holds rows from an
  earlier load leaves the old indicators and the old values in place.\<close>

theorem empty_collection_keeps_rows_counterexample:
  "create_database_from_data never_raises [brazil_row] [] [] stale_db
     = Some \<lparr>db_countries = [brazil_row], db_indicators = [gdp_row ''economic''],
             db_indicator_values = [gdp_value_row]\<rparr>
   \<and> map_option db_indicators
         (create_database_from_data never_raises [brazil_row] [] [] stale_db) \<noteq> Some []
   \<and> map_option db_indicator_values
         (create_database_from_data never_raises [brazil_row] [] [] stale_db) \<noteq> Some []"
  by (simp add: create_database_from_data_def never_raises_def stale_db_def)

section \<open>Properties of the setup script\<close>










lemma setup_reachable_minus_one:
  "setup_data reachable (- 1) empty_db = Some (empty_db\<lparr>db_countries := [argentina_row]\<rparr>)"
  by code_simp




section \<open>Properties of the profile query\<close>

subsection \<open>Searching a list\<close>



lemma find_None_filter: "find P xs = None \<longleftrightarrow> filter P xs = []"
  by (induction xs) auto

subsection \<open>Sorting\<close>






subsection \<open>Row numbers\<close>













subsection \<open>Grouping\<close>















end
